theory Spec2Isabelle
  imports Complex_Main
begin

section \<open>Recovery techniques for unstructured LR B-splines (ASMu2Drecovery.C)\<close>

text \<open>
  A shallow embedding of \<^verbatim>\<open>ASMu2Drecovery.C\<close>. A value of the C++ type \<^verbatim>\<open>Real\<close>
  (a finite double) is a HOL real; the double-precision product, sum and difference
  round their results, so they are parameters of the model (\<open>fmul\<close>, \<open>fadd\<close>, \<open>fsub\<close>
  below) and every comparison the code makes is made on the rounded value. \<^verbatim>\<open>size_t\<close> is
  nat and \<^verbatim>\<open>int\<close> an unbounded int. The classes
  the file only uses (the LR spline surface, the matrix containers, the quadrature table,
  the linear solvers, and the member functions of \<^verbatim>\<open>ASMu2D\<close> implemented in other
  files) are records whose function fields stand for the member functions called here.
  A function that changes an argument passed by reference returns the new value of
  that argument. An element access outside an array is undefined behaviour in the code;
  here it reads an unspecified value, and no property below rests on such a read.
\<close>

subsection \<open>Containers\<close>

type_synonym RealArray = "real list"

type_synonym Vector = "real list"

text \<open>
  \<^verbatim>\<open>Matrix\<close> and \<^verbatim>\<open>DenseMatrix\<close>: a rectangular array with its two dimensions and the
  1-based element access \<^verbatim>\<open>M(r,c)\<close>.
\<close>

record Matrix =
  rows :: nat
  cols :: nat
  elem :: "nat \<times> nat \<Rightarrow> real"

subsection \<open>The LR spline surface\<close>

record Element =
  getId :: int

record Basisfunction =
  getGrevilleParameter :: "real list"
  getExtendedSupport :: "Element list"
  supportedElements :: "Element list"
  cp :: "real list"

record BasisPtsSf =
  basisValues :: "real list"

record BasisDerivsSf =
  basisValuesD :: "real list"
  basisDerivs_u :: "real list"
  basisDerivs_v :: "real list"

record LRSplineSurface =
  order :: "int \<Rightarrow> int"
  rational :: bool
  getAllBasisfunctions :: "Basisfunction list"
  elements :: "Element list"
  point :: "real \<Rightarrow> real \<Rightarrow> real list"
  computeBasisEl :: "real \<Rightarrow> real \<Rightarrow> int \<Rightarrow> BasisPtsSf"
  computeBasisDerivsEl :: "real \<Rightarrow> real \<Rightarrow> int \<Rightarrow> BasisDerivsSf"
  computeBasis :: "real \<Rightarrow> real \<Rightarrow> BasisPtsSf"

text \<open>
  Modelled from the spec: \<^verbatim>\<open>LRSplineSurface::nBasisFunctions\<close> is part of the LR spline
  library; by the data model's invariant it is the number of basis functions that
  \<^verbatim>\<open>getAllBasisfunctions\<close> enumerates.
\<close>

definition nBasisFunctions :: "LRSplineSurface \<Rightarrow> nat" where
  "nBasisFunctions s = length (getAllBasisfunctions s)"

subsection \<open>Greville parameters\<close>

text \<open>
  \<^verbatim>\<open>ASMu2D::getGrevilleParameters(prm, dir)\<close>: the first argument is the patch's
  \<^verbatim>\<open>lrspline\<close> handle (\<open>None\<close> for a null pointer); the result is the returned flag and
  the array \<^verbatim>\<open>prm\<close> on return.
\<close>

definition getGrevilleParameters ::
  "LRSplineSurface option \<Rightarrow> RealArray \<Rightarrow> int \<Rightarrow> bool \<times> RealArray" where
  "getGrevilleParameters lrspline prm dir =
     (case lrspline of
        None \<Rightarrow> (False, prm)
      | Some s \<Rightarrow>
          if dir < 0 \<or> dir > 1 then (False, prm)
          else (True, fold (\<lambda>b prm. prm @ [getGrevilleParameter b ! nat dir])
                        (getAllBasisfunctions s) []))"

subsection \<open>Tensor grid expansion\<close>

text \<open>\<^verbatim>\<open>std::vector::resize\<close>: keeps the leading entries, pads with zeros.\<close>

definition resize :: "nat \<Rightarrow> real list \<Rightarrow> real list" where
  "resize n xs = take n xs @ replicate (n - length xs) 0"

text \<open>
  \<^verbatim>\<open>expandTensorGrid(in, out)\<close>: \<open>in0\<close>, \<open>in1\<close> are \<^verbatim>\<open>in[0]\<close>, \<^verbatim>\<open>in[1]\<close>; \<open>out0\<close>, \<open>out1\<close>
  are the two output arrays as they are on entry; the result is the pair on return. The
  loop state is \<^verbatim>\<open>(out[0], out[1], ip)\<close>.
\<close>

definition expandStep ::
  "RealArray \<Rightarrow> RealArray \<Rightarrow> nat \<Rightarrow> nat \<Rightarrow> RealArray \<times> RealArray \<times> nat \<Rightarrow>
   RealArray \<times> RealArray \<times> nat" where
  "expandStep in0 in1 j i st =
     (case st of (out0, out1, ip) \<Rightarrow>
        (out0[ip := in0 ! i], out1[ip := in1 ! j], ip + 1))"

definition expandTensorGrid ::
  "RealArray \<Rightarrow> RealArray \<Rightarrow> RealArray \<Rightarrow> RealArray \<Rightarrow> RealArray \<times> RealArray" where
  "expandTensorGrid in0 in1 out0 out1 =
     (let out0 = resize (length in0 * length in1) out0;
          out1 = resize (length in0 * length in1) out1;
          st = fold (\<lambda>j. fold (expandStep in0 in1 j) [0..<length in0])
                    [0..<length in1] (out0, out1, 0)
      in (fst st, fst (snd st)))"

subsection \<open>Matrix operations used by the recovery routines\<close>

text \<open>The default-constructed (empty) matrix and the zero-initialised \<^verbatim>\<open>Matrix(r,c)\<close>.\<close>

definition zeroMatrix :: "nat \<Rightarrow> nat \<Rightarrow> Matrix" where
  "zeroMatrix r c = \<lparr>rows = r, cols = c, elem = (\<lambda>_. 0)\<rparr>"

definition emptyMatrix :: Matrix where
  "emptyMatrix = zeroMatrix 0 0"

text \<open>\<^verbatim>\<open>M(r,c) = v\<close>.\<close>

definition setElem :: "Matrix \<Rightarrow> nat \<Rightarrow> nat \<Rightarrow> real \<Rightarrow> Matrix" where
  "setElem M r c v = M\<lparr>elem := (elem M)((r, c) := v)\<rparr>"

text \<open>\<^verbatim>\<open>Matrix B(points,true)\<close>: the transposed copy.\<close>

definition transposed :: "Matrix \<Rightarrow> Matrix" where
  "transposed M = \<lparr>rows = cols M, cols = rows M, elem = (\<lambda>(r, c). elem M (c, r))\<rparr>"

text \<open>
  \<^verbatim>\<open>sField.resize(r,c)\<close>: the new dimensions; every entry inside them is assigned by the
  caller right after the call.
\<close>

definition resizeMatrix :: "nat \<Rightarrow> nat \<Rightarrow> Matrix \<Rightarrow> Matrix" where
  "resizeMatrix r c M = M\<lparr>rows := r, cols := c\<rparr>"

text \<open>\<^verbatim>\<open>SparseMatrix\<close> has the same interface here; \<^verbatim>\<open>StdVector\<close> is read 1-based.\<close>

type_synonym SparseMatrix = Matrix

type_synonym StdVector = "nat \<Rightarrow> real"

subsection \<open>The patch, the integrand and the library services\<close>

record IntegrandBase =
  getNoFields :: nat
  derivativeOrder :: int

text \<open>
  The data members of \<^verbatim>\<open>ASMu2D\<close> read by the recovery routines, and its member
  functions implemented elsewhere: \<^verbatim>\<open>getElementCoordinates(Xnod,iel)\<close> (\<open>None\<close> when
  it returns false), \<^verbatim>\<open>getParametricArea(iel)\<close>,
  \<^verbatim>\<open>getGaussPointParameters(uGP,dir,nGauss,iel,xi)\<close> (its result is the array \<^verbatim>\<open>uGP\<close>)
  and \<^verbatim>\<open>evalSolution(sField,integrand,gpar)\<close> (its result is the returned flag and the
  matrix \<^verbatim>\<open>sField\<close> on return).
\<close>

record ASMu2D =
  lrspline :: "LRSplineSurface option"
  nGauss :: int
  MNPC :: "int list list"
  getNoNodes :: nat
  getElementCoordinates :: "int \<Rightarrow> Matrix option"
  getParametricArea :: "int \<Rightarrow> real"
  getGaussPointParameters :: "int \<Rightarrow> int \<Rightarrow> int \<Rightarrow> real list \<Rightarrow> RealArray"
  evalSolution :: "Matrix \<Rightarrow> IntegrandBase \<Rightarrow> RealArray \<times> RealArray \<Rightarrow> bool \<times> Matrix"

text \<open>
  The services of other modules: \<^verbatim>\<open>GaussQuadrature::getCoord\<close> and \<^verbatim>\<open>getWeight\<close>
  (\<open>None\<close> for a null pointer), \<^verbatim>\<open>SplineUtils::extractBasis\<close>, \<^verbatim>\<open>utl::Jacobian\<close>
  (its arguments here are \<^verbatim>\<open>dNdu\<close> and \<^verbatim>\<open>Xnod\<close>, its result the returned determinant),
  \<^verbatim>\<open>SparseMatrix::solve\<close> and \<^verbatim>\<open>DenseMatrix::solve\<close> (\<open>None\<close> when they return false,
  otherwise the right-hand side as overwritten with the solution); and the arithmetic
  of the machine: \<open>fmul\<close>, \<open>fadd\<close> and \<open>fsub\<close> are the double-precision \<^verbatim>\<open>*\<close>, \<^verbatim>\<open>+\<close> and
  \<^verbatim>\<open>-\<close>, whose results are rounded (a product may underflow to zero).
\<close>

record Services =
  getCoord :: "int \<Rightarrow> real list option"
  getWeight :: "int \<Rightarrow> real list option"
  extractBasis :: "BasisDerivsSf \<Rightarrow> Vector \<times> Matrix"
  Jacobian :: "Matrix \<Rightarrow> Matrix \<Rightarrow> real"
  solveSparse :: "SparseMatrix \<Rightarrow> StdVector \<Rightarrow> StdVector option"
  solveDense :: "Matrix \<Rightarrow> Matrix \<Rightarrow> Matrix option"
  fmul :: "real \<Rightarrow> real \<Rightarrow> real"
  fadd :: "real \<Rightarrow> real \<Rightarrow> real"
  fsub :: "real \<Rightarrow> real \<Rightarrow> real"

text \<open>\<^verbatim>\<open>M(r,c) += v\<close>.\<close>

definition addElem :: "Services \<Rightarrow> Matrix \<Rightarrow> nat \<Rightarrow> nat \<Rightarrow> real \<Rightarrow> Matrix" where
  "addElem srv M r c v = setElem M r c (fadd srv (elem M (r, c)) v)"

text \<open>
  A loop whose body may return from the enclosing function: \<open>Inl\<close> carries what the
  function leaves behind at the early return, \<open>Inr\<close> the loop state after the body.
\<close>

fun loopUntilReturn :: "('x \<Rightarrow> 's \<Rightarrow> 'e + 's) \<Rightarrow> 'x list \<Rightarrow> 's \<Rightarrow> 'e + 's" where
  "loopUntilReturn body [] st = Inr st"
| "loopUntilReturn body (x # xs) st =
     (case body x st of Inl e \<Rightarrow> Inl e | Inr st' \<Rightarrow> loopUntilReturn body xs st')"

text \<open>
  A pointer-valued function that dereferences \<^verbatim>\<open>lrspline\<close> without a check either
  dereferences a null pointer or returns (\<open>Returned None\<close> is a returned \<^verbatim>\<open>nullptr\<close>).
\<close>

datatype 'a outcome = NullDereference | Returned 'a

subsection \<open>Global L2 projection\<close>

text \<open>
  The scatter-add of one Gauss point into \<^verbatim>\<open>A\<close> and \<^verbatim>\<open>B\<close>: the loops over \<^verbatim>\<open>ii\<close>,
  \<^verbatim>\<open>jj\<close> and \<^verbatim>\<open>r\<close>. The \<^verbatim>\<open>int\<close> node numbers index as \<^verbatim>\<open>size_t\<close>.
\<close>

definition scatterAdd ::
  "Services \<Rightarrow> ASMu2D \<Rightarrow> nat \<Rightarrow> nat \<Rightarrow> int \<Rightarrow> Matrix \<Rightarrow> Vector \<Rightarrow> real \<Rightarrow> nat \<Rightarrow>
   SparseMatrix \<times> StdVector \<Rightarrow> SparseMatrix \<times> StdVector" where
  "scatterAdd srv patch ncomp nnod iel sField phi dJw ip AB =
     fold (\<lambda>ii (A, B).
        let inod = MNPC patch ! nat (iel - 1) ! ii + 1;
            A = fold (\<lambda>jj A.
                  let jnod = MNPC patch ! nat (iel - 1) ! jj + 1
                  in addElem srv A (nat inod) (nat jnod)
                       (fmul srv (fmul srv (phi ! ii) (phi ! jj)) dJw))
                  [0..<length phi] A;
            B = fold (\<lambda>r B.
                  B(nat inod + (r - 1) * nnod :=
                      fadd srv (B (nat inod + (r - 1) * nnod))
                        (fmul srv (fmul srv (phi ! ii) (elem sField (r, ip + 1))) dJw)))
                  [1..<ncomp + 1] B
        in (A, B))
       [0..<length phi] AB"

text \<open>
  The body of the integration loop at Gauss point \<^verbatim>\<open>(i,j)\<close>; the loop state is
  \<^verbatim>\<open>(A, B, ip)\<close>. The test \<^verbatim>\<open>dJw == 0.0\<close> is made on the product as computed; the
  \<^verbatim>\<open>continue\<close> leaves \<^verbatim>\<open>A\<close> and \<^verbatim>\<open>B\<close> as they are; \<^verbatim>\<open>ip\<close> is incremented by the loop
  header in either case. \<^verbatim>\<open>wg\<close> is non-null whenever \<^verbatim>\<open>continuous\<close> holds here.
\<close>

definition integratePoint ::
  "Services \<Rightarrow> ASMu2D \<Rightarrow> LRSplineSurface \<Rightarrow> bool \<Rightarrow> nat \<Rightarrow> nat \<Rightarrow> real list option \<Rightarrow>
   int \<Rightarrow> real \<Rightarrow> Matrix \<Rightarrow> RealArray \<Rightarrow> RealArray \<Rightarrow> Matrix \<Rightarrow> nat \<Rightarrow> nat \<Rightarrow>
   SparseMatrix \<times> StdVector \<times> nat \<Rightarrow> SparseMatrix \<times> StdVector \<times> nat" where
  "integratePoint srv patch s continuous' ncomp nnod wg iel dA Xnod gpar0 gpar1 sField j i st =
     (case st of (A, B, ip) \<Rightarrow>
        if continuous' then
          (case extractBasis srv (computeBasisDerivsEl s (gpar0 ! i) (gpar1 ! j) (iel - 1)) of
             (phi, dNdu) \<Rightarrow>
               let dJw = fmul srv (fmul srv (fmul srv dA (the wg ! i)) (the wg ! j))
                           (Jacobian srv dNdu Xnod)
               in if dJw = 0 then (A, B, ip + 1)
                  else (case scatterAdd srv patch ncomp nnod iel sField phi dJw ip (A, B) of
                          (A', B') \<Rightarrow> (A', B', ip + 1)))
        else
          (let phi = basisValues (computeBasisEl s (gpar0 ! i) (gpar1 ! j) (iel - 1));
               dJw = 1
           in case scatterAdd srv patch ncomp nnod iel sField phi dJw ip (A, B) of
                (A', B') \<Rightarrow> (A', B', ip + 1)))"

text \<open>
  The head of the element loop body: in continuous mode the nodal coordinates and the
  scaled parametric area of element \<^verbatim>\<open>iel\<close>, \<open>None\<close> at either \<^verbatim>\<open>return false\<close>; the
  test \<^verbatim>\<open>dA < 0.0\<close> is made on the product as computed. In discrete mode \<^verbatim>\<open>Xnod\<close> and
  \<^verbatim>\<open>dA\<close> keep their initial values.
\<close>

definition elementGeometry ::
  "Services \<Rightarrow> ASMu2D \<Rightarrow> bool \<Rightarrow> int \<Rightarrow> (Matrix \<times> real) option" where
  "elementGeometry srv patch continuous' iel =
     (if continuous' then
        (case getElementCoordinates patch iel of
           None \<Rightarrow> None
         | Some Xnod \<Rightarrow>
             let dA = fmul srv 0.25 (getParametricArea patch iel)
             in if dA < 0 then None else Some (Xnod, dA))
      else Some (emptyMatrix, 0))"

text \<open>
  The body of the assembly loop over the elements; the loop state is
  \<^verbatim>\<open>(iel, sField, A, B)\<close>, and an early \<^verbatim>\<open>return false\<close> leaves \<^verbatim>\<open>sField\<close> behind.
  (\<^verbatim>\<open>phi\<close> is re-established at every Gauss point, so its \<^verbatim>\<open>resize\<close> has no effect.)
\<close>

definition elementBody ::
  "Services \<Rightarrow> ASMu2D \<Rightarrow> LRSplineSurface \<Rightarrow> IntegrandBase \<Rightarrow> bool \<Rightarrow> int \<Rightarrow> int \<Rightarrow>
   real list \<Rightarrow> real list \<Rightarrow> real list option \<Rightarrow> Element \<Rightarrow>
   int \<times> Matrix \<times> SparseMatrix \<times> StdVector \<Rightarrow>
   Matrix + int \<times> Matrix \<times> SparseMatrix \<times> StdVector" where
  "elementBody srv patch s integrand continuous' ng1 ng2 xg yg wg el st =
     (case st of (iel, sField, A, B) \<Rightarrow>
        (case elementGeometry srv patch continuous' iel of
           None \<Rightarrow> Inl sField
         | Some (Xnod, dA) \<Rightarrow>
             (let gpar0 = getGaussPointParameters patch 0 ng1 iel xg;
                  gpar1 = getGaussPointParameters patch 1 ng2 iel yg;
                  unstrGpar = expandTensorGrid gpar0 gpar1 [] []
              in (case evalSolution patch sField integrand unstrGpar of
                    (ok, sField') \<Rightarrow>
                      if \<not> ok then Inl sField'
                      else
                        (case fold (\<lambda>j. fold (integratePoint srv patch s continuous'
                                                 (getNoFields integrand) (getNoNodes patch)
                                                 wg iel dA Xnod gpar0 gpar1 sField' j)
                                            [0..<nat ng1])
                                   [0..<nat ng2] (A, B, 0) of
                           (A', B', ip) \<Rightarrow> Inr (iel + 1, sField', A', B'))))))"

text \<open>Storing the control-point values: \<^verbatim>\<open>sField.resize(ncomp,nnod)\<close> and the two loops.\<close>

definition storeField :: "nat \<Rightarrow> nat \<Rightarrow> StdVector \<Rightarrow> Matrix \<Rightarrow> Matrix" where
  "storeField ncomp nnod B sField =
     fold (\<lambda>i. fold (\<lambda>j sField. setElem sField j i (B (i + (j - 1) * nnod)))
                    [1..<ncomp + 1])
          [1..<nnod + 1] (resizeMatrix ncomp nnod sField)"

text \<open>
  The Gaussian quadrature points of \<^verbatim>\<open>globalL2projection\<close>: \<open>None\<close> at either
  \<^verbatim>\<open>return false\<close>, otherwise \<^verbatim>\<open>(ng1, ng2, xg, yg, wg)\<close>; \<^verbatim>\<open>wg\<close> stays a null
  pointer in discrete mode.
\<close>

type_synonym GaussPoints = "int \<times> int \<times> real list \<times> real list \<times> real list option"

definition gaussQuadrature ::
  "Services \<Rightarrow> ASMu2D \<Rightarrow> LRSplineSurface \<Rightarrow> bool \<Rightarrow> GaussPoints option" where
  "gaussQuadrature srv patch s continuous' =
     (let p1 = order s 0;
          p2 = order s 1;
          ng1 = (if continuous' then nGauss patch else p1 - 1);
          ng2 = (if continuous' then nGauss patch else p2 - 1);
          xg = getCoord srv ng1;
          yg = getCoord srv ng2;
          wg = (if continuous' then getWeight srv (nGauss patch) else None)
      in if xg = None \<or> yg = None then None
         else if continuous' \<and> wg = None then None
         else Some (ng1, ng2, the xg, the yg, wg))"

text \<open>
  Setting up the projection matrices and the assembly loop over all elements in the
  patch: \<open>Inl\<close> is a \<^verbatim>\<open>return false\<close> inside the loop, with \<^verbatim>\<open>sField\<close> as it is then.
\<close>

definition assembly ::
  "Services \<Rightarrow> ASMu2D \<Rightarrow> LRSplineSurface \<Rightarrow> Matrix \<Rightarrow> IntegrandBase \<Rightarrow> bool \<Rightarrow> GaussPoints \<Rightarrow>
   Matrix + int \<times> Matrix \<times> SparseMatrix \<times> StdVector" where
  "assembly srv patch s sField integrand continuous' gq =
     (case gq of (ng1, ng2, xg, yg, wg) \<Rightarrow>
        let nnod = getNoNodes patch;
            A = zeroMatrix nnod nnod;
            B = (\<lambda>_. 0)
        in loopUntilReturn (elementBody srv patch s integrand continuous' ng1 ng2 xg yg wg)
             (elements s) (1, sField, A, B))"

text \<open>
  \<^verbatim>\<open>ASMu2D::globalL2projection(sField, integrand, continuous)\<close>: the result is the
  returned flag and the matrix \<^verbatim>\<open>sField\<close> on return.
\<close>

definition globalL2projection ::
  "Services \<Rightarrow> ASMu2D \<Rightarrow> Matrix \<Rightarrow> IntegrandBase \<Rightarrow> bool \<Rightarrow> bool \<times> Matrix" where
  "globalL2projection srv patch sField integrand continuous' =
     (case lrspline patch of
        None \<Rightarrow> (True, sField)
      | Some s \<Rightarrow>
          (case gaussQuadrature srv patch s continuous' of
             None \<Rightarrow> (False, sField)
           | Some gq \<Rightarrow>
               (case assembly srv patch s sField integrand continuous' gq of
                  Inl sField' \<Rightarrow> (False, sField')
                | Inr (iel, sField', A, B) \<Rightarrow>
                    (case solveSparse srv A B of
                       None \<Rightarrow> (False, sField')
                     | Some X \<Rightarrow>
                         (True, storeField (getNoFields integrand) (getNoNodes patch)
                                  X sField')))))"

subsection \<open>Superconvergent patch recovery\<close>

text \<open>The conversion of an \<^verbatim>\<open>int\<close> to \<^verbatim>\<open>size_t\<close> (64 bits).\<close>

definition size_t :: "int \<Rightarrow> nat" where
  "size_t k = nat (k mod 2 ^ 64)"

text \<open>
  \<^verbatim>\<open>evalMonomials(p1, p2, x, y, P)\<close>: \<^verbatim>\<open>P\<close> is resized and filled with ones, so the
  result does not depend on its contents on entry. The loop state is \<^verbatim>\<open>(P, ip)\<close>,
  \<^verbatim>\<open>monomialStep\<close> is the loop body at \<^verbatim>\<open>(i,j)\<close>, and \<^verbatim>\<open>P(ip)\<close> is the 1-based access.
\<close>

definition monomialStep ::
  "Services \<Rightarrow> real \<Rightarrow> real \<Rightarrow> nat \<Rightarrow> nat \<Rightarrow> Vector \<times> nat \<Rightarrow> Vector \<times> nat" where
  "monomialStep srv x y j i st =
     (case st of (P, ip) \<Rightarrow>
        let P = fold (\<lambda>k P. P[ip - 1 := fmul srv (P ! (ip - 1)) x]) [0..<i] P;
            P = fold (\<lambda>k P. P[ip - 1 := fmul srv (P ! (ip - 1)) y]) [0..<j] P
        in (P, ip + 1))"

definition evalMonomials :: "Services \<Rightarrow> int \<Rightarrow> int \<Rightarrow> real \<Rightarrow> real \<Rightarrow> Vector" where
  "evalMonomials srv p1 p2 x y =
     fst (fold (\<lambda>j. fold (monomialStep srv x y j) [0..<nat p1])
            [0..<nat p2] (replicate (size_t (p1 * p2)) 1, 1))"

text \<open>
  The body of the loop over the Gauss points of one knot span, at Gauss point
  \<^verbatim>\<open>(i,j)\<close>; the loop state is \<^verbatim>\<open>(A, B, ig)\<close>.
\<close>

definition patchPoint ::
  "Services \<Rightarrow> LRSplineSurface \<Rightarrow> int \<Rightarrow> int \<Rightarrow> nat \<Rightarrow> nat \<Rightarrow> real list \<Rightarrow>
   RealArray \<Rightarrow> RealArray \<Rightarrow> Matrix \<Rightarrow> nat \<Rightarrow> nat \<Rightarrow>
   Matrix \<times> Matrix \<times> nat \<Rightarrow> Matrix \<times> Matrix \<times> nat" where
  "patchPoint srv s n1 n2 nPol nCmp G gaussPt0 gaussPt1 sField j i st =
     (case st of (A, B, ig) \<Rightarrow>
        let X = point s (gaussPt0 ! i) (gaussPt1 ! j);
            P = evalMonomials srv n1 n2 (fsub srv (X ! 0) (G ! 0)) (fsub srv (X ! 1) (G ! 1))
        in case fold (\<lambda>k (A, B).
                   (fold (\<lambda>l A. addElem srv A k l (fmul srv (P ! (k - 1)) (P ! (l - 1))))
                         [1..<nPol + 1] A,
                    fold (\<lambda>l B. addElem srv B k l (fmul srv (P ! (k - 1)) (elem sField (l, ig))))
                         [1..<nCmp + 1] B))
                 [1..<nPol + 1] (A, B) of
             (A', B') \<Rightarrow> (A', B', ig + 1))"

text \<open>
  The body of the loop over the knot spans in the support of one basis function; the loop
  state is \<^verbatim>\<open>(A, B)\<close>; \<^verbatim>\<open>sField\<close> is a fresh matrix in every iteration.
\<close>

definition patchElement ::
  "Services \<Rightarrow> ASMu2D \<Rightarrow> LRSplineSurface \<Rightarrow> IntegrandBase \<Rightarrow> int \<Rightarrow> int \<Rightarrow>
   real list \<Rightarrow> real list \<Rightarrow> int \<Rightarrow> int \<Rightarrow> nat \<Rightarrow> nat \<Rightarrow> real list \<Rightarrow> Element \<Rightarrow>
   Matrix \<times> Matrix \<Rightarrow> unit + Matrix \<times> Matrix" where
  "patchElement srv patch s integrand ng1 ng2 xg yg n1 n2 nPol nCmp G el st =
     (case st of (A, B) \<Rightarrow>
        let iel = getId el + 1;
            gaussPt0 = getGaussPointParameters patch 0 ng1 iel xg;
            gaussPt1 = getGaussPointParameters patch 1 ng2 iel yg;
            unstrGauss = expandTensorGrid gaussPt0 gaussPt1 [] []
        in (case evalSolution patch emptyMatrix integrand unstrGauss of
              (ok, sField) \<Rightarrow>
                if \<not> ok then Inl ()
                else
                  (case fold (\<lambda>j. fold (patchPoint srv s n1 n2 nPol nCmp G gaussPt0
                                           gaussPt1 sField j)
                                      [0..<nat ng1])
                             [0..<nat ng2] (A, B, 1) of
                     (A', B', ig) \<Rightarrow> Inr (A', B'))))"

text \<open>
  The body of the loop over the basis functions (one Greville point each); the loop
  state is \<^verbatim>\<open>(sValues, ip)\<close>, and \<open>Inl\<close> is a \<^verbatim>\<open>return nullptr\<close>.
\<close>

definition recoverBasis ::
  "Services \<Rightarrow> ASMu2D \<Rightarrow> LRSplineSurface \<Rightarrow> IntegrandBase \<Rightarrow> int \<Rightarrow> int \<Rightarrow>
   real list \<Rightarrow> real list \<Rightarrow> int \<Rightarrow> int \<Rightarrow> nat \<Rightarrow> nat \<Rightarrow> RealArray \<Rightarrow> RealArray \<Rightarrow>
   Basisfunction \<Rightarrow> Matrix \<times> nat \<Rightarrow> unit + Matrix \<times> nat" where
  "recoverBasis srv patch s integrand ng1 ng2 xg yg n1 n2 nPol nCmp gpar0 gpar1 b st =
     (case st of (sValues, ip) \<Rightarrow>
        let supportElements = (if True then getExtendedSupport b else supportedElements b);
            G = point s (gpar0 ! ip) (gpar1 ! ip);
            A = zeroMatrix nPol nPol;
            B = zeroMatrix nPol nCmp
        in (case loopUntilReturn
                   (patchElement srv patch s integrand ng1 ng2 xg yg n1 n2 nPol nCmp G)
                   supportElements (A, B) of
              Inl u \<Rightarrow> Inl ()
            | Inr (A', B') \<Rightarrow>
                (case solveDense srv A' B' of
                   None \<Rightarrow> Inl ()
                 | Some X \<Rightarrow>
                     (let ip = ip + 1
                      in Inr (fold (\<lambda>l sValues. setElem sValues l ip (elem X (1, l)))
                                   [1..<nCmp + 1] sValues, ip)))))"

subsection \<open>Interpolation at the Greville points\<close>

text \<open>
  Modelled from the spec: \<^verbatim>\<open>LRSplineSurface::rebuildDimension\<close> is part of the LR spline
  library; it resets the control dimensionality of every basis function to the number of
  field components.
\<close>

definition rebuildDimension :: "nat \<Rightarrow> LRSplineSurface \<Rightarrow> LRSplineSurface" where
  "rebuildDimension d s =
     s\<lparr>getAllBasisfunctions := map (\<lambda>b. b\<lparr>cp := replicate d 0\<rparr>) (getAllBasisfunctions s)\<rparr>"

text \<open>The loops that evaluate all basis functions at all points into the \<^verbatim>\<open>A\<close>-matrix.\<close>

definition interpolationMatrix :: "LRSplineSurface \<Rightarrow> RealArray \<Rightarrow> RealArray \<Rightarrow> Matrix" where
  "interpolationMatrix s upar vpar =
     (let nBasis = nBasisFunctions s
      in fold (\<lambda>i A.
           let splineValues = computeBasis s (upar ! i) (vpar ! i)
           in fold (\<lambda>j A. setElem A (i + 1) (j + 1) (basisValues splineValues ! j))
                   [0..<nBasis] A)
         [0..<nBasis] (zeroMatrix nBasis nBasis))"

text \<open>
  The loops that swap the control point values around: for every component \<^verbatim>\<open>j\<close> the
  basis functions are enumerated with the running index \<^verbatim>\<open>i\<close>.
\<close>

definition setControlPoints :: "Matrix \<Rightarrow> LRSplineSurface \<Rightarrow> LRSplineSurface" where
  "setControlPoints B ans =
     fold (\<lambda>j ans.
        ans\<lparr>getAllBasisfunctions :=
          fold (\<lambda>i bs. bs[i := (bs ! i)\<lparr>cp := (cp (bs ! i))[j := elem B (i + 1, j + 1)]\<rparr>])
               [0..<length (getAllBasisfunctions ans)] (getAllBasisfunctions ans)\<rparr>)
       [0..<cols B] ans"

text \<open>
  \<^verbatim>\<open>ASMu2D::regularInterpolation(upar, vpar, points)\<close>; the copy made by
  \<^verbatim>\<open>lrspline->copy()\<close> is the value \<open>s\<close> itself.
\<close>

definition regularInterpolation ::
  "Services \<Rightarrow> ASMu2D \<Rightarrow> RealArray \<Rightarrow> RealArray \<Rightarrow> Matrix \<Rightarrow>
   LRSplineSurface option outcome" where
  "regularInterpolation srv patch upar vpar points =
     (case lrspline patch of
        None \<Rightarrow> NullDereference
      | Some s \<Rightarrow>
          if rational s then Returned None
          else
            (let nBasis = nBasisFunctions s
             in if length upar \<noteq> nBasis \<or> length vpar \<noteq> nBasis \<or> cols points \<noteq> nBasis
                then Returned None
                else
                  (let A = interpolationMatrix s upar vpar;
                       B = transposed points
                   in (case solveDense srv A B of
                         None \<Rightarrow> Returned None
                       | Some X \<Rightarrow>
                           Returned (Some (setControlPoints X
                                             (rebuildDimension (cols X) s)))))))"

text \<open>\<^verbatim>\<open>ASMu2D::scRecovery(integrand)\<close>.\<close>

definition scRecovery ::
  "Services \<Rightarrow> ASMu2D \<Rightarrow> IntegrandBase \<Rightarrow> LRSplineSurface option outcome" where
  "scRecovery srv patch integrand =
     (case lrspline patch of
        None \<Rightarrow> NullDereference
      | Some s \<Rightarrow>
          let m = derivativeOrder integrand;
              p1 = order s 0;
              p2 = order s 1;
              ng1 = p1 - m;
              ng2 = p2 - m;
              xg = getCoord srv ng1;
              yg = getCoord srv ng2
          in if xg = None \<or> yg = None then Returned None
             else
               (case getGrevilleParameters (lrspline patch) [] 0 of
                  (ok0, gpar0) \<Rightarrow>
                    if \<not> ok0 then Returned None
                    else
                      (case getGrevilleParameters (lrspline patch) [] 1 of
                         (ok1, gpar1) \<Rightarrow>
                           if \<not> ok1 then Returned None
                           else
                             (let n1 = p1 - m + 1;
                                  n2 = p2 - m + 1;
                                  nCmp = getNoFields integrand;
                                  nPol = size_t (n1 * n2);
                                  sValues = zeroMatrix nCmp (length gpar0)
                              in (case loopUntilReturn
                                         (recoverBasis srv patch s integrand ng1 ng2
                                            (the xg) (the yg) n1 n2 nPol nCmp gpar0 gpar1)
                                         (getAllBasisfunctions s) (sValues, 0) of
                                    Inl u \<Rightarrow> Returned None
                                  | Inr (sValues', ip) \<Rightarrow>
                                      regularInterpolation srv patch gpar0 gpar1
                                        sValues')))))"

subsection \<open>The field matrix and the local system, as the properties state them\<close>

text \<open>
  The unstructured Gauss points of element \<^verbatim>\<open>iel\<close>, as \<open>elementBody\<close> and
  \<open>patchElement\<close> hand them to \<^verbatim>\<open>evalSolution\<close>.
\<close>

definition gaussGrid ::
  "ASMu2D \<Rightarrow> int \<Rightarrow> int \<Rightarrow> real list \<Rightarrow> real list \<Rightarrow> int \<Rightarrow> RealArray \<times> RealArray" where
  "gaussGrid patch ng1 ng2 xg yg iel =
     expandTensorGrid (getGaussPointParameters patch 0 ng1 iel xg)
                      (getGaussPointParameters patch 1 ng2 iel yg) [] []"



text \<open>
  A sample point of the local fit: the vector \<^verbatim>\<open>P\<close> of monomials and the sampled field
  (a value for every component). At the Gauss point \<open>(i, j)\<close> of a knot span the monomials
  are taken at the offset of the mapped Gauss point \<^verbatim>\<open>X\<close> from the centre \<^verbatim>\<open>G\<close>, and the
  sampled field is column \<^verbatim>\<open>ig\<close> of the matrix that the field evaluation returned.
\<close>

type_synonym Sample = "Vector \<times> (nat \<Rightarrow> real)"

definition pointSample ::
  "Services \<Rightarrow> LRSplineSurface \<Rightarrow> int \<Rightarrow> int \<Rightarrow> real list \<Rightarrow> RealArray \<Rightarrow> RealArray \<Rightarrow>
   Matrix \<Rightarrow> nat \<Rightarrow> nat \<Rightarrow> nat \<Rightarrow> Sample" where
  "pointSample srv s n1 n2 G gaussPt0 gaussPt1 sField ig j i =
     (evalMonomials srv n1 n2
        (fsub srv (point s (gaussPt0 ! i) (gaussPt1 ! j) ! 0) (G ! 0))
        (fsub srv (point s (gaussPt0 ! i) (gaussPt1 ! j) ! 1) (G ! 1)),
      (\<lambda>l. elem sField (l, ig)))"

text \<open>
  The sample points of one knot span in the order of the loops (\<open>j\<close> outside, \<open>i\<close> inside);
  the Gauss point \<open>(i, j)\<close> is column \<open>j \<cdot> ng1 + i + 1\<close> of the field matrix of the span.
\<close>

definition fitSamples ::
  "Services \<Rightarrow> ASMu2D \<Rightarrow> LRSplineSurface \<Rightarrow> IntegrandBase \<Rightarrow> int \<Rightarrow> int \<Rightarrow>
   real list \<Rightarrow> real list \<Rightarrow> int \<Rightarrow> int \<Rightarrow> real list \<Rightarrow> Element \<Rightarrow> Sample list" where
  "fitSamples srv patch s integrand ng1 ng2 xg yg n1 n2 G el =
     (let iel = getId el + 1;
          gaussPt0 = getGaussPointParameters patch 0 ng1 iel xg;
          gaussPt1 = getGaussPointParameters patch 1 ng2 iel yg;
          sField = snd (evalSolution patch emptyMatrix integrand
                          (gaussGrid patch ng1 ng2 xg yg iel))
      in concat (map (\<lambda>j. map (\<lambda>i. pointSample srv s n1 n2 G gaussPt0 gaussPt1 sField
                                      (j * nat ng1 + i + 1) j i)
                              [0..<nat ng1])
                     [0..<nat ng2]))"

text \<open>
  The entries of the normal equations of a list of sample points, accumulated in the
  order of the list from zero with the rounded operations: a sample adds \<open>P\<^sub>k \<cdot> P\<^sub>l\<close> to
  \<open>A(k,l)\<close> and \<open>P\<^sub>k\<close> times the sampled component \<open>l\<close> to \<open>B(k,l)\<close> (\<open>P\<^sub>k\<close> is the 1-based
  entry \<open>k\<close> of the monomial vector).
\<close>

definition normalStep :: "Services \<Rightarrow> nat \<Rightarrow> nat \<Rightarrow> real \<Rightarrow> Sample \<Rightarrow> real" where
  "normalStep srv k l a sample =
     fadd srv a (fmul srv (fst sample ! (k - 1)) (fst sample ! (l - 1)))"

definition loadStep :: "Services \<Rightarrow> nat \<Rightarrow> nat \<Rightarrow> real \<Rightarrow> Sample \<Rightarrow> real" where
  "loadStep srv k l b sample = fadd srv b (fmul srv (fst sample ! (k - 1)) (snd sample l))"

definition normalEntry :: "Services \<Rightarrow> Sample list \<Rightarrow> nat \<Rightarrow> nat \<Rightarrow> real" where
  "normalEntry srv samples k l = foldl (normalStep srv k l) 0 samples"

definition loadEntry :: "Services \<Rightarrow> Sample list \<Rightarrow> nat \<Rightarrow> nat \<Rightarrow> real" where
  "loadEntry srv samples k l = foldl (loadStep srv k l) 0 samples"

text \<open>
  The local system of a list of sample points: the \<open>nPol \<times> nPol\<close> matrix and the
  \<open>nPol \<times> nCmp\<close> right-hand side with these entries.
\<close>

definition normalMatrix :: "Services \<Rightarrow> nat \<Rightarrow> Sample list \<Rightarrow> Matrix" where
  "normalMatrix srv nPol samples =
     \<lparr>rows = nPol, cols = nPol,
      elem = (\<lambda>(k, l). if 1 \<le> k \<and> k \<le> nPol \<and> 1 \<le> l \<and> l \<le> nPol
                        then normalEntry srv samples k l else 0)\<rparr>"

definition loadMatrix :: "Services \<Rightarrow> nat \<Rightarrow> nat \<Rightarrow> Sample list \<Rightarrow> Matrix" where
  "loadMatrix srv nPol nCmp samples =
     \<lparr>rows = nPol, cols = nCmp,
      elem = (\<lambda>(k, l). if 1 \<le> k \<and> k \<le> nPol \<and> 1 \<le> l \<and> l \<le> nCmp
                        then loadEntry srv samples k l else 0)\<rparr>"

text \<open>
  The monomial \<open>x\<^sup>i y\<^sup>j\<close> as the machine computes it in \<^verbatim>\<open>evalMonomials\<close>: starting from
  one, \<open>i\<close> rounded multiplications by \<open>x\<close> followed by \<open>j\<close> rounded multiplications by \<open>y\<close>.
\<close>

definition monomial :: "Services \<Rightarrow> real \<Rightarrow> real \<Rightarrow> nat \<Rightarrow> nat \<Rightarrow> real" where
  "monomial srv x y i j = ((\<lambda>p. fmul srv p y) ^^ j) (((\<lambda>p. fmul srv p x) ^^ i) 1)"

subsection \<open>A small patch for concrete runs\<close>

text \<open>
  Two elements side by side with one piecewise constant basis function each (order 1),
  a one-point Gauss rule, and a field evaluator that returns the constant 7 at every
  point. The solvers of this example handle the diagonal systems with a nonzero
  diagonal and report every other system as unsolvable. The arithmetic of the example
  is exact: the numbers of the concrete runs below are small integers, on which the
  double-precision operations do not round.
\<close>

definition exElements :: "Element list" where
  "exElements = [\<lparr>getId = 0\<rparr>, \<lparr>getId = 1\<rparr>]"

definition exBasis :: "Basisfunction list" where
  "exBasis =
     [\<lparr>getGrevilleParameter = [1, 1], getExtendedSupport = exElements,
       supportedElements = [\<lparr>getId = 0\<rparr>], cp = [0, 0]\<rparr>,
      \<lparr>getGrevilleParameter = [3, 1], getExtendedSupport = exElements,
       supportedElements = [\<lparr>getId = 1\<rparr>], cp = [0, 0]\<rparr>]"

definition exSpline :: LRSplineSurface where
  "exSpline =
     \<lparr>order = (\<lambda>_. 1), rational = False, getAllBasisfunctions = exBasis,
      elements = exElements, point = (\<lambda>u v. [u, v]),
      computeBasisEl = (\<lambda>u v iel. \<lparr>basisValues = [1]\<rparr>),
      computeBasisDerivsEl =
        (\<lambda>u v iel. \<lparr>basisValuesD = [1], basisDerivs_u = [0], basisDerivs_v = [0]\<rparr>),
      computeBasis = (\<lambda>u v. \<lparr>basisValues = (if u < 2 then [1, 0] else [0, 1])\<rparr>)\<rparr>"

definition exField :: "Matrix \<Rightarrow> IntegrandBase \<Rightarrow> RealArray \<times> RealArray \<Rightarrow> bool \<times> Matrix" where
  "exField sField integrand gpar =
     (True, \<lparr>rows = getNoFields integrand, cols = length (fst gpar), elem = (\<lambda>_. 7)\<rparr>)"

definition exPatch :: ASMu2D where
  "exPatch =
     \<lparr>lrspline = Some exSpline, nGauss = 1, MNPC = [ [0], [1] ], getNoNodes = 2,
      getElementCoordinates = (\<lambda>iel. Some (zeroMatrix 2 4)),
      getParametricArea = (\<lambda>iel. 4),
      getGaussPointParameters =
        (\<lambda>dir ng iel xi. map (\<lambda>x. (if dir = 0 then 2 * of_int iel - 1 else 1) + x) xi),
      evalSolution = exField\<rparr>"

definition exIntegrand :: IntegrandBase where
  "exIntegrand = \<lparr>getNoFields = 1, derivativeOrder = 0\<rparr>"

definition regularDiagonal :: "Matrix \<Rightarrow> bool" where
  "regularDiagonal A =
     list_all (\<lambda>r. elem A (r, r) \<noteq> 0 \<and>
                 list_all (\<lambda>c. c = r \<or> elem A (r, c) = 0) [1..<cols A + 1])
       [1..<rows A + 1]"

definition diagSolveSparse :: "SparseMatrix \<Rightarrow> StdVector \<Rightarrow> StdVector option" where
  "diagSolveSparse A B =
     (if regularDiagonal A
      then Some (\<lambda>q. B q / elem A ((q - 1) mod rows A + 1, (q - 1) mod rows A + 1))
      else None)"

definition diagSolveDense :: "Matrix \<Rightarrow> Matrix \<Rightarrow> Matrix option" where
  "diagSolveDense A B =
     (if regularDiagonal A
      then Some (B\<lparr>elem := (\<lambda>(r, c). elem B (r, c) / elem A (r, r))\<rparr>)
      else None)"

definition exServices :: Services where
  "exServices =
     \<lparr>getCoord = (\<lambda>n. if n = 1 then Some [0] else None),
      getWeight = (\<lambda>n. if n = 1 then Some [2] else None),
      extractBasis = (\<lambda>spl. (basisValuesD spl, zeroMatrix (length (basisValuesD spl)) 2)),
      Jacobian = (\<lambda>dNdu Xnod. 1),
      solveSparse = diagSolveSparse,
      solveDense = diagSolveDense,
      fmul = (\<lambda>x y. x * y), fadd = (\<lambda>x y. x + y), fsub = (\<lambda>x y. x - y)\<rparr>"

text \<open>The field matrix handed in by the caller in the concrete runs.\<close>

definition exInput :: Matrix where
  "exInput = zeroMatrix 0 0"

text \<open>Sample values at the two Greville points: one component, the values 1 and 2.\<close>

definition exValues :: Matrix where
  "exValues = \<lparr>rows = 1, cols = 2, elem = (\<lambda>(r, c). real c)\<rparr>"









subsection \<open>A patch of four elements for the local fit\<close>

text \<open>
  Four square elements around the origin, bilinear (order 2), with the basis function at
  the centre: its Greville point is the origin and its support are the four elements.
  With first derivatives (\<open>derivativeOrder = 1\<close>) every element has one Gauss point, its
  midpoint \<open>(\<plusminus>1, \<plusminus>1)\<close>, and the local fit has the four monomials \<open>1, x, y, xy\<close>. The
  sampled field is \<open>7 + u\<close>.
\<close>

definition exQuadElements :: "Element list" where
  "exQuadElements = [\<lparr>getId = 0\<rparr>, \<lparr>getId = 1\<rparr>, \<lparr>getId = 2\<rparr>, \<lparr>getId = 3\<rparr>]"

definition exCentre :: Basisfunction where
  "exCentre =
     \<lparr>getGrevilleParameter = [0, 0], getExtendedSupport = exQuadElements,
      supportedElements = exQuadElements, cp = [0, 0]\<rparr>"

definition exQuad :: LRSplineSurface where
  "exQuad =
     \<lparr>order = (\<lambda>_. 2), rational = False, getAllBasisfunctions = [exCentre],
      elements = exQuadElements, point = (\<lambda>u v. [u, v]),
      computeBasisEl = (\<lambda>u v iel. \<lparr>basisValues = [1]\<rparr>),
      computeBasisDerivsEl =
        (\<lambda>u v iel. \<lparr>basisValuesD = [1], basisDerivs_u = [0], basisDerivs_v = [0]\<rparr>),
      computeBasis = (\<lambda>u v. \<lparr>basisValues = [1]\<rparr>)\<rparr>"

definition exLinearField ::
  "Matrix \<Rightarrow> IntegrandBase \<Rightarrow> RealArray \<times> RealArray \<Rightarrow> bool \<times> Matrix" where
  "exLinearField sField integrand gpar =
     (True, \<lparr>rows = getNoFields integrand, cols = length (fst gpar),
             elem = (\<lambda>(r, c). 7 + fst gpar ! (c - 1))\<rparr>)"

definition exQuadPatch :: ASMu2D where
  "exQuadPatch =
     \<lparr>lrspline = Some exQuad, nGauss = 1, MNPC = [ [0], [0], [0], [0] ], getNoNodes = 1,
      getElementCoordinates = (\<lambda>iel. Some (zeroMatrix 2 4)),
      getParametricArea = (\<lambda>iel. 4),
      getGaussPointParameters =
        (\<lambda>dir ng iel xi.
           map (\<lambda>x. (if dir = 0 then (if iel = 1 \<or> iel = 3 then - 1 else 1)
                      else (if iel \<le> 2 then - 1 else 1)) + x) xi),
      evalSolution = exLinearField\<rparr>"

definition exDerivatives :: IntegrandBase where
  "exDerivatives = \<lparr>getNoFields = 1, derivativeOrder = 1\<rparr>"

text \<open>
  A field evaluator that agrees with \<open>exLinearField\<close> at the Gauss points of the four
  elements and fails at every other point.
\<close>

definition exSupportOnlyField ::
  "Matrix \<Rightarrow> IntegrandBase \<Rightarrow> RealArray \<times> RealArray \<Rightarrow> bool \<times> Matrix" where
  "exSupportOnlyField sField integrand gpar =
     (if fst gpar = [1] \<or> fst gpar = [- 1] then exLinearField sField integrand gpar
      else (False, sField))"

text \<open>
  The same four elements moved away from the origin: the Greville point of the basis
  function is \<open>(10, 20)\<close> and the Gauss points are \<open>(10 \<plusminus> 1, 20 \<plusminus> 1)\<close>. The sampled field
  \<open>7 + u\<close> has the value 17 at the Greville point.
\<close>

definition exOffCentre :: Basisfunction where
  "exOffCentre = exCentre\<lparr>getGrevilleParameter := [10, 20]\<rparr>"

definition exShifted :: LRSplineSurface where
  "exShifted = exQuad\<lparr>getAllBasisfunctions := [exOffCentre]\<rparr>"

definition exShiftedPatch :: ASMu2D where
  "exShiftedPatch =
     exQuadPatch
       \<lparr>lrspline := Some exShifted,
        getGaussPointParameters :=
          (\<lambda>dir ng iel xi.
             map (\<lambda>x. (if dir = 0 then (if iel = 1 \<or> iel = 3 then 9 else 11)
                        else (if iel \<le> 2 then 19 else 21)) + x) xi)\<rparr>"

subsection \<open>Re-evaluating the interpolated field\<close>

text \<open>
  Modelled from the spec: evaluating the field carried by a mesh at a parametric point
  is done by the LR spline library, outside this file. The field value is the sum over
  the basis functions of the basis value at the point times the control value;
  \<open>fieldValue ans u v j\<close> is its component \<open>j\<close> (counted from 0, like \<^verbatim>\<open>cp()[j]\<close>).
\<close>

definition fieldValue :: "LRSplineSurface \<Rightarrow> real \<Rightarrow> real \<Rightarrow> nat \<Rightarrow> real" where
  "fieldValue ans u v j =
     (\<Sum>k\<leftarrow>[0..<nBasisFunctions ans].
        basisValues (computeBasis ans u v) ! k * cp (getAllBasisfunctions ans ! k) ! j)"

text \<open>
  Modelled from the spec: \<^verbatim>\<open>DenseMatrix::solve\<close> is implemented outside this file. On
  success it overwrites the right-hand side, keeping its shape, with a matrix \<open>X\<close> that
  solves \<open>A \<cdot> X = B\<close> within the solver tolerance \<open>tol\<close>, entry by entry.
\<close>

definition solvedWithin :: "real \<Rightarrow> Matrix \<Rightarrow> Matrix \<Rightarrow> Matrix \<Rightarrow> bool" where
  "solvedWithin tol A X B =
     (rows X = rows B \<and> cols X = cols B \<and>
      list_all (\<lambda>r. list_all (\<lambda>c.
          \<bar>(\<Sum>k\<leftarrow>[1..<cols A + 1]. elem A (r, k) * elem X (k, c)) - elem B (r, c)\<bar> \<le> tol)
        [1..<cols B + 1]) [1..<rows A + 1])"

section \<open>Properties\<close>

subsection \<open>Tensor grid expansion\<close>

lemma expand_inner:
  assumes "ip + m \<le> length o0" "ip + m \<le> length o1"
  shows "\<exists>p0 p1. fold (expandStep in0 in1 j) [0..<m] (o0, o1, ip) = (p0, p1, ip + m)
            \<and> length p0 = length o0 \<and> length p1 = length o1
            \<and> (\<forall>k<m. p0 ! (ip + k) = in0 ! k \<and> p1 ! (ip + k) = in1 ! j)
            \<and> (\<forall>q. q < ip \<or> ip + m \<le> q \<longrightarrow> p0 ! q = o0 ! q \<and> p1 ! q = o1 ! q)"
  using assms
proof (induction m)
  case 0
  then show ?case by simp
next
  case (Suc m)
  then obtain p0 p1 where
    f: "fold (expandStep in0 in1 j) [0..<m] (o0, o1, ip) = (p0, p1, ip + m)"
    and l: "length p0 = length o0" "length p1 = length o1"
    and w: "\<forall>k<m. p0 ! (ip + k) = in0 ! k \<and> p1 ! (ip + k) = in1 ! j"
    and r: "\<forall>q. q < ip \<or> ip + m \<le> q \<longrightarrow> p0 ! q = o0 ! q \<and> p1 ! q = o1 ! q"
    by force
  have s: "fold (expandStep in0 in1 j) [0..<Suc m] (o0, o1, ip)
           = (p0[ip + m := in0 ! m], p1[ip + m := in1 ! j], ip + Suc m)"
    by (simp add: f expandStep_def)
  show ?case
    unfolding s using l w r Suc.prems
    by (auto simp: nth_list_update less_Suc_eq)
qed

lemma expand_outer:
  assumes "m * n \<le> length o0" "m * n \<le> length o1"
  shows "\<exists>p0 p1. fold (\<lambda>j. fold (expandStep in0 in1 j) [0..<m]) [0..<n] (o0, o1, 0)
                 = (p0, p1, m * n)
            \<and> length p0 = length o0 \<and> length p1 = length o1
            \<and> (\<forall>i<n. \<forall>k<m. p0 ! (i * m + k) = in0 ! k \<and> p1 ! (i * m + k) = in1 ! i)"
  using assms
proof (induction n)
  case 0
  then show ?case by simp
next
  case (Suc n)
  then obtain p0 p1 where
    f: "fold (\<lambda>j. fold (expandStep in0 in1 j) [0..<m]) [0..<n] (o0, o1, 0) = (p0, p1, m * n)"
    and l: "length p0 = length o0" "length p1 = length o1"
    and w: "\<forall>i<n. \<forall>k<m. p0 ! (i * m + k) = in0 ! k \<and> p1 ! (i * m + k) = in1 ! i"
    by force
  from Suc.prems l have b: "m * n + m \<le> length p0" "m * n + m \<le> length p1" by simp_all
  from expand_inner [OF b, of in0 in1 n] obtain q0 q1 where
    g: "fold (expandStep in0 in1 n) [0..<m] (p0, p1, m * n) = (q0, q1, m * n + m)"
    and l': "length q0 = length p0" "length q1 = length p1"
    and w': "\<forall>k<m. q0 ! (m * n + k) = in0 ! k \<and> q1 ! (m * n + k) = in1 ! n"
    and r': "\<forall>q. q < m * n \<or> m * n + m \<le> q \<longrightarrow> q0 ! q = p0 ! q \<and> q1 ! q = p1 ! q"
    by blast
  have s: "fold (\<lambda>j. fold (expandStep in0 in1 j) [0..<m]) [0..<Suc n] (o0, o1, 0)
           = (q0, q1, m * Suc n)"
    by (simp add: f g)
  have old: "i * m + k < m * n" if "i < n" "k < m" for i k
  proof -
    from that have "Suc i \<le> n" by simp
    then have "Suc i * m \<le> n * m" by (rule mult_le_mono1)
    with that show ?thesis by (simp add: mult.commute)
  qed
  have "q0 ! (i * m + k) = in0 ! k \<and> q1 ! (i * m + k) = in1 ! i" if "i < Suc n" "k < m" for i k
  proof (cases "i = n")
    case True
    with w' that show ?thesis by (simp add: mult.commute)
  next
    case False
    with that have "i < n" by simp
    with old that r' w show ?thesis by simp
  qed
  with s l l' show ?case by auto
qed

lemma length_resize: "length (resize n xs) = n"
  by (simp add: resize_def)

text \<open>
  Claim C2. For input arrays of lengths \<open>m\<close> and \<open>n\<close>, \<^verbatim>\<open>expandTensorGrid\<close> leaves two
  output arrays of length \<open>m \<cdot> n\<close> each, with \<open>out0[i\<cdot>m+k] = in0[k]\<close> and
  \<open>out1[i\<cdot>m+k] = in1[i]\<close> for all \<open>k < m\<close> and \<open>i < n\<close>, whatever the output arrays held on
  entry; the inputs \<open>{0,1,2}\<close> and \<open>{2,3,5}\<close> give \<open>{0,1,2,0,1,2,0,1,2}\<close> and
  \<open>{2,2,2,3,3,3,5,5,5}\<close>.
\<close>

theorem expandTensorGrid_spec:
  "length (fst (expandTensorGrid in0 in1 out0 out1)) = length in0 * length in1
   \<and> length (snd (expandTensorGrid in0 in1 out0 out1)) = length in0 * length in1
   \<and> (\<forall>i<length in1. \<forall>k<length in0.
        fst (expandTensorGrid in0 in1 out0 out1) ! (i * length in0 + k) = in0 ! k
      \<and> snd (expandTensorGrid in0 in1 out0 out1) ! (i * length in0 + k) = in1 ! i)
   \<and> expandTensorGrid [0, 1, 2] [2, 3, 5] [] []
       = ([0, 1, 2, 0, 1, 2, 0, 1, 2], [2, 2, 2, 3, 3, 3, 5, 5, 5])"
proof -
  let ?N = "length in0 * length in1"
  have "?N \<le> length (resize ?N out0)" "?N \<le> length (resize ?N out1)"
    by (simp_all add: length_resize)
  from expand_outer [OF this, of in0 in1] obtain p0 p1 where
    f: "fold (\<lambda>j. fold (expandStep in0 in1 j) [0..<length in0]) [0..<length in1]
          (resize ?N out0, resize ?N out1, 0) = (p0, p1, ?N)"
    and l: "length p0 = ?N" "length p1 = ?N"
    and w: "\<forall>i<length in1. \<forall>k<length in0.
              p0 ! (i * length in0 + k) = in0 ! k \<and> p1 ! (i * length in0 + k) = in1 ! i"
    by (auto simp: length_resize)
  have e: "expandTensorGrid in0 in1 out0 out1 = (p0, p1)"
    by (simp add: expandTensorGrid_def Let_def f)
  have c: "expandTensorGrid [0, 1, 2] [2, 3, 5] [] []
       = ([0, 1, 2, 0, 1, 2, 0, 1, 2], [2, 2, 2, 3, 3, 3, 5, 5, 5])"
    by (simp add: expandTensorGrid_def resize_def expandStep_def upt_rec numeral_eq_Suc)
  show ?thesis unfolding e using l w c by simp
qed

theorem expandTensorGrid_spec_witness:
  "(1::nat) < length [2, 3, 5 :: real] \<and> (2::nat) < length [0, 1, 2 :: real]
   \<and> fst (expandTensorGrid [0, 1, 2] [2, 3, 5] [7, 7] []) ! (1 * 3 + 2) = 2
   \<and> snd (expandTensorGrid [0, 1, 2] [2, 3, 5] [7, 7] []) ! (1 * 3 + 2) = 3
   \<and> length (fst (expandTensorGrid [0, 1, 2] [2, 3, 5] [7, 7] [])) = 9"
proof -
  note spec = expandTensorGrid_spec [of "[0, 1, 2]" "[2, 3, 5]" "[7, 7]" "[]"]
  from spec have len: "length (fst (expandTensorGrid [0, 1, 2] [2, 3, 5] [7, 7] [])) = 9"
    by simp
  from spec have
    "\<forall>i<length [2, 3, 5 :: real]. \<forall>k<length [0, 1, 2 :: real].
        fst (expandTensorGrid [0, 1, 2] [2, 3, 5] [7, 7] []) ! (i * length [0, 1, 2 :: real] + k)
          = [0, 1, 2] ! k
      \<and> snd (expandTensorGrid [0, 1, 2] [2, 3, 5] [7, 7] []) ! (i * length [0, 1, 2 :: real] + k)
          = [2, 3, 5] ! i"
    by blast
  from this [rule_format, of 1 2] len show ?thesis
    by (simp add: eval_nat_numeral)
qed

subsection \<open>Greville parameters\<close>

lemma fold_snoc_map: "fold (\<lambda>b prm. prm @ [f b]) bs acc = acc @ map f bs"
  by (induction bs arbitrary: acc) simp_all

text \<open>
  Claim C8. \<^verbatim>\<open>getGrevilleParameters\<close> succeeds exactly when the mesh is present and the
  direction is 0 or 1; it then returns one parametric coordinate per basis function, in
  the order in which the mesh enumerates its basis functions. When the mesh is absent or
  the direction is outside that range it returns false and leaves the array untouched.
\<close>

theorem getGrevilleParameters_spec:
  "fst (getGrevilleParameters lr prm dir) = (lr \<noteq> None \<and> 0 \<le> dir \<and> dir \<le> 1)
   \<and> (\<forall>s. lr = Some s \<and> 0 \<le> dir \<and> dir \<le> 1 \<longrightarrow>
         snd (getGrevilleParameters lr prm dir)
           = map (\<lambda>b. getGrevilleParameter b ! nat dir) (getAllBasisfunctions s)
       \<and> length (snd (getGrevilleParameters lr prm dir)) = nBasisFunctions s)
   \<and> (lr = None \<or> dir < 0 \<or> dir > 1 \<longrightarrow> getGrevilleParameters lr prm dir = (False, prm))"
  by (auto simp: getGrevilleParameters_def fold_snoc_map nBasisFunctions_def split: option.splits)

theorem getGrevilleParameters_spec_witness:
  "fst (getGrevilleParameters (Some exSpline) [] 0)
   \<and> snd (getGrevilleParameters (Some exSpline) [] 0) = [1, 3]
   \<and> length (snd (getGrevilleParameters (Some exSpline) [] 1)) = 2
   \<and> getGrevilleParameters (Some exSpline) [5] 2 = (False, [5])
   \<and> getGrevilleParameters None [5] 0 = (False, [5])"
  using getGrevilleParameters_spec [of "Some exSpline" "[]" 0]
    getGrevilleParameters_spec [of "Some exSpline" "[]" 1]
    getGrevilleParameters_spec [of "Some exSpline" "[5]" 2]
    getGrevilleParameters_spec [of None "[5]" 0]
  by (simp add: exSpline_def exBasis_def nBasisFunctions_def)

subsection \<open>The absent mesh\<close>

text \<open>
  Claim C9. When the mesh handle is null, \<^verbatim>\<open>globalL2projection\<close> returns true at once
  and the field matrix is what it was on entry, for every field matrix, integrand,
  continuous flag, quadrature table and solver: an empty patch is silently ignored.
\<close>

theorem globalL2projection_empty_patch:
  "globalL2projection srv (patch\<lparr>lrspline := None\<rparr>) sField integrand continuous'
     = (True, sField)"
  by (simp add: globalL2projection_def)

theorem globalL2projection_empty_patch_witness:
  "globalL2projection exServices (exPatch\<lparr>lrspline := None\<rparr>) exInput exIntegrand False
     = (True, exInput)"
  by (rule globalL2projection_empty_patch)

lemma regularInterpolation_present:
  "regularInterpolation srv (patch\<lparr>lrspline := Some s\<rparr>) upar vpar points \<noteq> NullDereference"
  by (simp add: regularInterpolation_def Let_def split: option.splits)

text \<open>
  Claim C10. \<^verbatim>\<open>scRecovery\<close> reads the polynomial orders through the mesh handle before
  any check of the handle: with a null mesh it dereferences the null pointer and does
  not return the failure value \<^verbatim>\<open>nullptr\<close>, whereas \<^verbatim>\<open>getGrevilleParameters\<close> and
  \<^verbatim>\<open>globalL2projection\<close> check the handle first and return. With a mesh present,
  \<^verbatim>\<open>scRecovery\<close> dereferences no null pointer.
\<close>

theorem scRecovery_null_dereference:
  "scRecovery srv (patch\<lparr>lrspline := None\<rparr>) integrand = NullDereference
   \<and> scRecovery srv (patch\<lparr>lrspline := None\<rparr>) integrand \<noteq> Returned None
   \<and> getGrevilleParameters (lrspline (patch\<lparr>lrspline := None\<rparr>)) prm dir = (False, prm)
   \<and> globalL2projection srv (patch\<lparr>lrspline := None\<rparr>) sField integrand continuous'
       = (True, sField)
   \<and> scRecovery srv (patch\<lparr>lrspline := Some s\<rparr>) integrand \<noteq> NullDereference"
  by (simp add: scRecovery_def getGrevilleParameters_def globalL2projection_def Let_def
      regularInterpolation_present split: option.splits prod.splits sum.splits)

theorem scRecovery_null_dereference_witness:
  "scRecovery exServices (exPatch\<lparr>lrspline := None\<rparr>) exIntegrand = NullDereference
   \<and> scRecovery exServices (exPatch\<lparr>lrspline := Some exSpline\<rparr>) exIntegrand \<noteq> NullDereference"
  using scRecovery_null_dereference [of exServices exPatch exIntegrand "[]" 0 exInput True exSpline]
  by simp

subsection \<open>Interpolation at the Greville points\<close>

lemma rows_setElem [simp]: "rows (setElem M r c v) = rows M"
  and cols_setElem [simp]: "cols (setElem M r c v) = cols M"
  by (simp_all add: setElem_def)

lemma dims_fold_setElem:
  "rows (fold (\<lambda>j A. setElem A (f j) (g j) (h j)) js A) = rows A
   \<and> cols (fold (\<lambda>j A. setElem A (f j) (g j) (h j)) js A) = cols A"
  by (induction js arbitrary: A) simp_all

lemma dims_interpolationMatrix:
  "rows (interpolationMatrix s upar vpar) = nBasisFunctions s
   \<and> cols (interpolationMatrix s upar vpar) = nBasisFunctions s"
proof -
  have "rows (fold (\<lambda>i A. fold (\<lambda>j A. setElem A (i + 1) (j + 1) (h i j)) js A) is A) = rows A
      \<and> cols (fold (\<lambda>i A. fold (\<lambda>j A. setElem A (i + 1) (j + 1) (h i j)) js A) is A) = cols A"
    for h :: "nat \<Rightarrow> nat \<Rightarrow> real" and js "is" A
    by (induction "is" arbitrary: A) (simp_all add: dims_fold_setElem)
  from this [of "\<lambda>i j. basisValues (computeBasis s (upar ! i) (vpar ! i)) ! j"]
  show ?thesis
    by (simp add: interpolationMatrix_def Let_def zeroMatrix_def)
qed

text \<open>
  Claim C6. With a mesh present, \<^verbatim>\<open>regularInterpolation\<close> returns \<^verbatim>\<open>nullptr\<close> exactly
  when the basis is rational, or the length of \<^verbatim>\<open>upar\<close>, the length of \<^verbatim>\<open>vpar\<close> or the
  column count of \<^verbatim>\<open>points\<close> differs from the number of basis functions, or the dense
  solver reports failure on the interpolation system, which has as many rows and columns
  as there are basis functions; in every other case it returns a mesh.
\<close>

theorem regularInterpolation_failure:
  "(regularInterpolation srv (patch\<lparr>lrspline := Some s\<rparr>) upar vpar points = Returned None)
     = (rational s \<or> length upar \<noteq> nBasisFunctions s \<or> length vpar \<noteq> nBasisFunctions s
        \<or> cols points \<noteq> nBasisFunctions s
        \<or> solveDense srv (interpolationMatrix s upar vpar) (transposed points) = None)
   \<and> (regularInterpolation srv (patch\<lparr>lrspline := Some s\<rparr>) upar vpar points \<noteq> Returned None
        \<longrightarrow> (\<exists>ans. regularInterpolation srv (patch\<lparr>lrspline := Some s\<rparr>) upar vpar points
                    = Returned (Some ans)))
   \<and> rows (interpolationMatrix s upar vpar) = nBasisFunctions s
   \<and> cols (interpolationMatrix s upar vpar) = nBasisFunctions s"
  by (auto simp: regularInterpolation_def Let_def dims_interpolationMatrix split: option.splits)

lemma exSpline_interpolationMatrix_diagonal:
  "regularDiagonal (interpolationMatrix exSpline [1, 3] [1, 1])"
  by (simp add: interpolationMatrix_def exSpline_def exBasis_def nBasisFunctions_def
      regularDiagonal_def setElem_def zeroMatrix_def upt_rec)

theorem regularInterpolation_failure_witness:
  "regularInterpolation exServices (exPatch\<lparr>lrspline := Some exSpline\<rparr>) [1, 3] [1, 1] exValues
     \<noteq> Returned None
   \<and> (\<exists>ans. regularInterpolation exServices (exPatch\<lparr>lrspline := Some exSpline\<rparr>)
              [1, 3] [1, 1] exValues = Returned (Some ans))
   \<and> regularInterpolation exServices (exPatch\<lparr>lrspline := Some exSpline\<rparr>) [1] [1, 1] exValues
       = Returned None
   \<and> regularInterpolation exServices (exPatch\<lparr>lrspline := Some (exSpline\<lparr>rational := True\<rparr>)\<rparr>)
       [1, 3] [1, 1] exValues = Returned None"
  using regularInterpolation_failure [where srv = exServices and patch = exPatch
       and s = exSpline and upar = "[1, 3]" and vpar = "[1, 1]" and points = exValues]
    regularInterpolation_failure [where srv = exServices and patch = exPatch
       and s = exSpline and upar = "[1]" and vpar = "[1, 1]" and points = exValues]
    regularInterpolation_failure [where srv = exServices and patch = exPatch
       and s = "exSpline\<lparr>rational := True\<rparr>" and upar = "[1, 3]" and vpar = "[1, 1]"
       and points = exValues]
    exSpline_interpolationMatrix_diagonal
  by (simp add: exServices_def diagSolveDense_def nBasisFunctions_def exSpline_def exBasis_def
      exValues_def)

subsection \<open>Loops with an early return, and the definitions of the concrete runs\<close>

lemma loopUntilReturn_invariant:
  assumes "I st"
    and "\<And>x st st'. I st \<Longrightarrow> body x st = Inr st' \<Longrightarrow> I st'"
    and "\<And>x st e. I st \<Longrightarrow> body x st = Inl e \<Longrightarrow> Q e"
  shows "(loopUntilReturn body xs st = Inl e \<longrightarrow> Q e)
       \<and> (loopUntilReturn body xs st = Inr st' \<longrightarrow> I st')"
  using assms(1)
proof (induction xs arbitrary: st)
  case Nil
  then show ?case by auto
next
  case (Cons x xs)
  show ?case
  proof (cases "body x st")
    case (Inl a)
    with Cons.prems assms(3) show ?thesis by auto
  next
    case (Inr st1)
    with Cons.prems assms(2) have "I st1" by blast
    from Cons.IH [OF this] Inr show ?thesis by simp
  qed
qed


text \<open>The definitions unfolded to evaluate the local fit on the four-element patch.\<close>

lemmas qdefs = recoverBasis_def patchElement_def patchPoint_def evalMonomials_def monomialStep_def size_t_def exQuadPatch_def exQuad_def exCentre_def exQuadElements_def
   exDerivatives_def exLinearField_def exServices_def diagSolveDense_def regularDiagonal_def zeroMatrix_def emptyMatrix_def addElem_def setElem_def
   expandTensorGrid_def expandStep_def resize_def Let_def

subsection \<open>Superconvergent patch recovery: the support of the fit\<close>

lemma loopUntilReturn_cong:
  assumes "\<And>x st. x \<in> set xs \<Longrightarrow> f x st = g x st"
  shows "loopUntilReturn f xs st = loopUntilReturn g xs st"
  using assms
proof (induction xs arbitrary: st)
  case Nil
  then show ?case by simp
next
  case (Cons x xs)
  then have "f x st = g x st" by simp
  moreover from Cons have "\<And>st'. loopUntilReturn f xs st' = loopUntilReturn g xs st'" by simp
  ultimately show ?case by (simp split: sum.splits)
qed

lemma loopUntilReturn_map:
  "loopUntilReturn body (map h xs) st = loopUntilReturn (\<lambda>x. body (h x)) xs st"
  by (induction xs arbitrary: st) (simp_all split: sum.splits)

lemma recoverBasis_direct_support:
  "recoverBasis srv patch s integrand ng1 ng2 xg yg n1 n2 nPol nCmp gpar0 gpar1
      (b\<lparr>supportedElements := els\<rparr>) st
   = recoverBasis srv patch s integrand ng1 ng2 xg yg n1 n2 nPol nCmp gpar0 gpar1 b st"
  by (simp add: recoverBasis_def)

text \<open>
  Claim C3. For every basis function processed by \<^verbatim>\<open>scRecovery\<close>, the knot spans whose
  Gauss points are sampled are those of the function's extended support: the loop body
  gives the same result whatever the function's direct support is, for one basis
  function and for the whole loop over the basis functions; it gives the same result for
  any two field evaluators that agree at the Gauss points of the elements of the
  extended support; and when it succeeds, the local system is the one accumulated by
  the element loop over the extended support.
\<close>

theorem recoverBasis_extended_support:
  "recoverBasis srv patch s integrand ng1 ng2 xg yg n1 n2 nPol nCmp gpar0 gpar1
      (b\<lparr>supportedElements := els\<rparr>) st
     = recoverBasis srv patch s integrand ng1 ng2 xg yg n1 n2 nPol nCmp gpar0 gpar1 b st
   \<and> loopUntilReturn
        (recoverBasis srv patch s integrand ng1 ng2 xg yg n1 n2 nPol nCmp gpar0 gpar1)
        (map (\<lambda>b. b\<lparr>supportedElements := direct b\<rparr>) bs) st
     = loopUntilReturn
        (recoverBasis srv patch s integrand ng1 ng2 xg yg n1 n2 nPol nCmp gpar0 gpar1) bs st
   \<and> ((\<forall>el\<in>set (getExtendedSupport b).
          ev emptyMatrix integrand
             (expandTensorGrid (getGaussPointParameters patch 0 ng1 (getId el + 1) xg)
                               (getGaussPointParameters patch 1 ng2 (getId el + 1) yg) [] [])
          = evalSolution patch emptyMatrix integrand
             (expandTensorGrid (getGaussPointParameters patch 0 ng1 (getId el + 1) xg)
                               (getGaussPointParameters patch 1 ng2 (getId el + 1) yg) [] []))
       \<longrightarrow> recoverBasis srv (patch\<lparr>evalSolution := ev\<rparr>) s integrand ng1 ng2 xg yg n1 n2 nPol
              nCmp gpar0 gpar1 b st
           = recoverBasis srv patch s integrand ng1 ng2 xg yg n1 n2 nPol nCmp gpar0 gpar1 b st)
   \<and> (\<forall>sValues ip sValues' ip'.
         recoverBasis srv patch s integrand ng1 ng2 xg yg n1 n2 nPol nCmp gpar0 gpar1 b
           (sValues, ip) = Inr (sValues', ip')
         \<longrightarrow> (\<exists>A B. loopUntilReturn
                       (patchElement srv patch s integrand ng1 ng2 xg yg n1 n2 nPol nCmp
                          (point s (gpar0 ! ip) (gpar1 ! ip)))
                       (getExtendedSupport b) (zeroMatrix nPol nPol, zeroMatrix nPol nCmp)
                     = Inr (A, B)))"
proof (intro conjI impI allI)
  show "recoverBasis srv patch s integrand ng1 ng2 xg yg n1 n2 nPol nCmp gpar0 gpar1
      (b\<lparr>supportedElements := els\<rparr>) st
     = recoverBasis srv patch s integrand ng1 ng2 xg yg n1 n2 nPol nCmp gpar0 gpar1 b st"
    by (rule recoverBasis_direct_support)
next
  show "loopUntilReturn
        (recoverBasis srv patch s integrand ng1 ng2 xg yg n1 n2 nPol nCmp gpar0 gpar1)
        (map (\<lambda>b. b\<lparr>supportedElements := direct b\<rparr>) bs) st
     = loopUntilReturn
        (recoverBasis srv patch s integrand ng1 ng2 xg yg n1 n2 nPol nCmp gpar0 gpar1) bs st"
    unfolding loopUntilReturn_map
    by (rule loopUntilReturn_cong) (rule recoverBasis_direct_support)
next
  assume agree: "\<forall>el\<in>set (getExtendedSupport b).
          ev emptyMatrix integrand
             (expandTensorGrid (getGaussPointParameters patch 0 ng1 (getId el + 1) xg)
                               (getGaussPointParameters patch 1 ng2 (getId el + 1) yg) [] [])
          = evalSolution patch emptyMatrix integrand
             (expandTensorGrid (getGaussPointParameters patch 0 ng1 (getId el + 1) xg)
                               (getGaussPointParameters patch 1 ng2 (getId el + 1) yg) [] [])"
  have "loopUntilReturn
          (patchElement srv (patch\<lparr>evalSolution := ev\<rparr>) s integrand ng1 ng2 xg yg n1 n2 nPol nCmp G)
          (getExtendedSupport b) st'
        = loopUntilReturn
          (patchElement srv patch s integrand ng1 ng2 xg yg n1 n2 nPol nCmp G)
          (getExtendedSupport b) st'" for G st'
  proof (rule loopUntilReturn_cong)
    fix el st''
    assume "el \<in> set (getExtendedSupport b)"
    with agree show "patchElement srv (patch\<lparr>evalSolution := ev\<rparr>) s integrand ng1 ng2 xg yg n1 n2
                       nPol nCmp G el st''
                   = patchElement srv patch s integrand ng1 ng2 xg yg n1 n2 nPol nCmp G el st''"
      by (simp add: patchElement_def Let_def)
  qed
  then show "recoverBasis srv (patch\<lparr>evalSolution := ev\<rparr>) s integrand ng1 ng2 xg yg n1 n2 nPol
              nCmp gpar0 gpar1 b st
           = recoverBasis srv patch s integrand ng1 ng2 xg yg n1 n2 nPol nCmp gpar0 gpar1 b st"
    by (simp add: recoverBasis_def)
next
  fix sValues ip sValues' ip'
  assume "recoverBasis srv patch s integrand ng1 ng2 xg yg n1 n2 nPol nCmp gpar0 gpar1 b
           (sValues, ip) = Inr (sValues', ip')"
  then show "\<exists>A B. loopUntilReturn
                       (patchElement srv patch s integrand ng1 ng2 xg yg n1 n2 nPol nCmp
                          (point s (gpar0 ! ip) (gpar1 ! ip)))
                       (getExtendedSupport b) (zeroMatrix nPol nPol, zeroMatrix nPol nCmp)
                     = Inr (A, B)"
    by (auto simp: recoverBasis_def Let_def split: sum.splits)
qed

text \<open>The recovered value at the centre of the four-element patch is \<open>7\<close>.\<close>

lemma exCentre_recovered:
  "\<exists>M. recoverBasis exServices exQuadPatch exQuad exDerivatives 1 1 [0] [0] 2 2 4 1 [0] [0]
          exCentre (zeroMatrix 1 1, 0) = Inr (M, 1) \<and> elem M (1, 1) = 7"
  by (simp add: qdefs upt_rec)

theorem recoverBasis_extended_support_witness:
  "(\<exists>M. recoverBasis exServices exQuadPatch exQuad exDerivatives 1 1 [0] [0] 2 2 4 1 [0] [0]
          (exCentre\<lparr>supportedElements := [\<lparr>getId = 0\<rparr>]\<rparr>) (zeroMatrix 1 1, 0) = Inr (M, 1)
        \<and> elem M (1, 1) = 7)
   \<and> (\<exists>M. recoverBasis exServices (exQuadPatch\<lparr>evalSolution := exSupportOnlyField\<rparr>) exQuad
            exDerivatives 1 1 [0] [0] 2 2 4 1 [0] [0] exCentre (zeroMatrix 1 1, 0) = Inr (M, 1)
        \<and> elem M (1, 1) = 7)
   \<and> (\<exists>A B. loopUntilReturn
               (patchElement exServices exQuadPatch exQuad exDerivatives 1 1 [0] [0] 2 2 4 1
                  (point exQuad ([0] ! 0) ([0] ! 0)))
               (getExtendedSupport exCentre) (zeroMatrix 4 4, zeroMatrix 4 1) = Inr (A, B))"
proof -
  note t = recoverBasis_extended_support [where srv = exServices and patch = exQuadPatch
      and s = exQuad and integrand = exDerivatives and ?ng1.0 = 1 and ?ng2.0 = 1 and xg = "[0]"
      and yg = "[0]" and ?n1.0 = 2 and ?n2.0 = 2 and nPol = 4 and nCmp = 1 and ?gpar0.0 = "[0]"
      and ?gpar1.0 = "[0]" and b = exCentre and st = "(zeroMatrix 1 1, 0)"
      and els = "[\<lparr>getId = 0\<rparr>]" and ev = exSupportOnlyField]
  have agree: "\<forall>el\<in>set (getExtendedSupport exCentre).
          exSupportOnlyField emptyMatrix exDerivatives
             (expandTensorGrid (getGaussPointParameters exQuadPatch 0 1 (getId el + 1) [0])
                               (getGaussPointParameters exQuadPatch 1 1 (getId el + 1) [0]) [] [])
          = evalSolution exQuadPatch emptyMatrix exDerivatives
             (expandTensorGrid (getGaussPointParameters exQuadPatch 0 1 (getId el + 1) [0])
                               (getGaussPointParameters exQuadPatch 1 1 (getId el + 1) [0]) [] [])"
    by (simp add: exCentre_def exQuadElements_def exQuadPatch_def exSupportOnlyField_def expandTensorGrid_def
        expandStep_def resize_def)
  from t agree exCentre_recovered show ?thesis
    by (metis (no_types, lifting))
qed

subsection \<open>Interpolation at the Greville points: the round trip\<close>

lemma interpolation_row:
  "elem (fold (\<lambda>j A. setElem A (Suc i) (Suc j) (h j)) [0..<n] A) (r, c)
     = (if r = Suc i \<and> 1 \<le> c \<and> c \<le> n then h (c - 1) else elem A (r, c))"
proof (induction n)
  case 0
  then show ?case by simp
next
  case (Suc n)
  then show ?case by (auto simp: setElem_def)
qed

lemma interpolation_grid:
  "elem (fold (\<lambda>i A. fold (\<lambda>j A. setElem A (Suc i) (Suc j) (h i j)) [0..<n] A) [0..<m] A) (r, c)
     = (if 1 \<le> r \<and> r \<le> m \<and> 1 \<le> c \<and> c \<le> n then h (r - 1) (c - 1) else elem A (r, c))"
proof (induction m)
  case 0
  then show ?case by simp
next
  case (Suc m)
  then show ?case by (auto simp: interpolation_row)
qed

lemma elem_interpolationMatrix:
  assumes "i < nBasisFunctions s" "k < nBasisFunctions s"
  shows "elem (interpolationMatrix s upar vpar) (i + 1, k + 1)
         = basisValues (computeBasis s (upar ! i) (vpar ! i)) ! k"
  using assms
  by (simp add: interpolationMatrix_def Let_def
      interpolation_grid [of "\<lambda>i j. basisValues (computeBasis s (upar ! i) (vpar ! i)) ! j"])


lemma controlPoint_inner:
  assumes "n \<le> length bs"
  shows "length (fold (\<lambda>i bs. bs[i := (bs ! i)\<lparr>cp := (cp (bs ! i))[j := f i]\<rparr>]) [0..<n] bs)
           = length bs
       \<and> (\<forall>i<length bs.
            fold (\<lambda>i bs. bs[i := (bs ! i)\<lparr>cp := (cp (bs ! i))[j := f i]\<rparr>]) [0..<n] bs ! i
              = (if i < n then (bs ! i)\<lparr>cp := (cp (bs ! i))[j := f i]\<rparr> else bs ! i))"
  using assms
proof (induction n)
  case 0
  then show ?case by simp
next
  case (Suc n)
  then show ?case by (auto simp: nth_list_update less_Suc_eq)
qed

lemma nth_list_update_total:
  "(L[d := v]) ! q = (if q = d \<and> d < length L then v else L ! q)"
proof (cases "d < length L")
  case True
  then show ?thesis by (simp add: nth_list_update)
next
  case False
  then have "L[d := v] = L" by (simp add: list_update_beyond)
  with False show ?thesis by simp
qed

lemma controlPoint_outer:
  fixes X :: Matrix and ans :: LRSplineSurface
  defines "step \<equiv> \<lambda>j ans.
        ans\<lparr>getAllBasisfunctions :=
          fold (\<lambda>i bs. bs[i := (bs ! i)\<lparr>cp := (cp (bs ! i))[j := elem X (i + 1, j + 1)]\<rparr>])
               [0..<length (getAllBasisfunctions ans)] (getAllBasisfunctions ans)\<rparr>"
  shows "computeBasis (fold step [0..<d] ans) = computeBasis ans
       \<and> length (getAllBasisfunctions (fold step [0..<d] ans)) = length (getAllBasisfunctions ans)
       \<and> (\<forall>i<length (getAllBasisfunctions ans).
            length (cp (getAllBasisfunctions (fold step [0..<d] ans) ! i))
              = length (cp (getAllBasisfunctions ans ! i))
            \<and> (\<forall>q. cp (getAllBasisfunctions (fold step [0..<d] ans) ! i) ! q
                    = (if q < d \<and> q < length (cp (getAllBasisfunctions ans ! i))
                       then elem X (i + 1, q + 1)
                       else cp (getAllBasisfunctions ans ! i) ! q)))"
proof (induction d)
  case 0
  then show ?case by simp
next
  case (Suc d)
  let ?a = "fold step [0..<d] ans"
  let ?bs = "getAllBasisfunctions ?a"
  have f: "fold step [0..<Suc d] ans = step d ?a" by simp
  note inner = controlPoint_inner [of "length ?bs" ?bs d "\<lambda>i. elem X (i + 1, d + 1)", simplified]
  from Suc have len: "length ?bs = length (getAllBasisfunctions ans)" by simp
  have cb: "computeBasis (step d ?a) = computeBasis ans"
    using Suc by (simp add: step_def)
  have l2: "length (getAllBasisfunctions (step d ?a)) = length (getAllBasisfunctions ans)"
    using inner len by (simp add: step_def)
  have ent: "getAllBasisfunctions (step d ?a) ! i
             = (?bs ! i)\<lparr>cp := (cp (?bs ! i))[d := elem X (i + 1, d + 1)]\<rparr>"
    if "i < length (getAllBasisfunctions ans)" for i
    using inner len that by (simp add: step_def)
  have "length (cp (getAllBasisfunctions (step d ?a) ! i))
              = length (cp (getAllBasisfunctions ans ! i))
            \<and> (\<forall>q. cp (getAllBasisfunctions (step d ?a) ! i) ! q
                    = (if q < Suc d \<and> q < length (cp (getAllBasisfunctions ans ! i))
                       then elem X (i + 1, q + 1)
                       else cp (getAllBasisfunctions ans ! i) ! q))"
    if i: "i < length (getAllBasisfunctions ans)" for i
  proof -
    from Suc i have l: "length (cp (?bs ! i)) = length (cp (getAllBasisfunctions ans ! i))"
      and v: "\<And>q. cp (?bs ! i) ! q
                    = (if q < d \<and> q < length (cp (getAllBasisfunctions ans ! i))
                       then elem X (i + 1, q + 1)
                       else cp (getAllBasisfunctions ans ! i) ! q)"
      by simp_all
    show ?thesis
      unfolding ent [OF i] using l v
      by (auto simp: nth_list_update_total less_Suc_eq)
  qed
  with cb l2 show ?case unfolding f by blast
qed

lemma setControlPoints_spec:
  "computeBasis (setControlPoints X (rebuildDimension (cols X) s)) = computeBasis s
   \<and> nBasisFunctions (setControlPoints X (rebuildDimension (cols X) s)) = nBasisFunctions s
   \<and> (\<forall>i<nBasisFunctions s. \<forall>j<cols X.
         cp (getAllBasisfunctions (setControlPoints X (rebuildDimension (cols X) s)) ! i) ! j
           = elem X (i + 1, j + 1))"
proof -
  let ?r = "rebuildDimension (cols X) s"
  have r: "computeBasis ?r = computeBasis s"
    "length (getAllBasisfunctions ?r) = nBasisFunctions s"
    "\<And>i. i < nBasisFunctions s \<Longrightarrow> length (cp (getAllBasisfunctions ?r ! i)) = cols X"
    by (simp_all add: rebuildDimension_def nBasisFunctions_def)
  from controlPoint_outer [of X "cols X" ?r] r show ?thesis
    by (simp add: setControlPoints_def nBasisFunctions_def)
qed


lemma sum_list_shift:
  "(\<Sum>k\<leftarrow>[0..<n]. g (k + 1)) = (\<Sum>k\<leftarrow>[1..<n + 1]. (g k :: real))"
proof -
  have "map (\<lambda>k. g (k + 1)) [0..<n] = map g (map Suc [0..<n])" by simp
  also have "map Suc [0..<n] = [1..<n + 1]" by (simp add: map_Suc_upt)
  finally show ?thesis by simp
qed

text \<open>
  Claim C7. Round trip: when \<^verbatim>\<open>regularInterpolation\<close> succeeds on one sample point per
  basis function and a value matrix, and the dense solver's result solves the
  interpolation system within the tolerance \<open>tol\<close>, the field of the produced mesh,
  re-evaluated at the sample points, reproduces every sampled value within \<open>tol\<close>. The
  matrix row of a point holds the basis values at that point, the right-hand side is the
  transposed value matrix, and the control value \<open>j\<close> of basis function \<open>k\<close> is the
  solution entry \<open>(k + 1, j + 1)\<close>.
\<close>

theorem regularInterpolation_roundtrip:
  assumes mesh: "lrspline patch = Some s"
    and ok: "regularInterpolation srv patch upar vpar points = Returned (Some ans)"
    and solver: "\<forall>X. solveDense srv (interpolationMatrix s upar vpar) (transposed points) = Some X
                   \<longrightarrow> solvedWithin tol (interpolationMatrix s upar vpar) X (transposed points)"
  shows "\<forall>i<nBasisFunctions s. \<forall>j<rows points.
           \<bar>fieldValue ans (upar ! i) (vpar ! i) j - elem points (j + 1, i + 1)\<bar> \<le> tol"
proof (intro allI impI)
  fix i j
  assume i: "i < nBasisFunctions s" and j: "j < rows points"
  let ?A = "interpolationMatrix s upar vpar"
  let ?B = "transposed points"
  let ?n = "nBasisFunctions s"
  from mesh ok obtain X where x: "solveDense srv ?A ?B = Some X"
    and ans: "ans = setControlPoints X (rebuildDimension (cols X) s)"
    by (auto simp: regularInterpolation_def Let_def split: if_splits option.splits)
  from solver x have sw: "solvedWithin tol ?A X ?B" by blast
  then have cx: "cols X = rows points"
    by (simp add: solvedWithin_def transposed_def)
  note dims = dims_interpolationMatrix [of s upar vpar]
  from sw i j dims
  have res: "\<bar>(\<Sum>k\<leftarrow>[1..<?n + 1]. elem ?A (i + 1, k) * elem X (k, j + 1)) - elem ?B (i + 1, j + 1)\<bar>
             \<le> tol"
    by (simp add: solvedWithin_def list_all_iff transposed_def del: upt_Suc)
  note cps = setControlPoints_spec [of X s]
  from cps ans have nb: "nBasisFunctions ans = ?n" and cb: "computeBasis ans = computeBasis s"
    by simp_all
  have "fieldValue ans (upar ! i) (vpar ! i) j
        = (\<Sum>k\<leftarrow>[0..<?n]. elem ?A (i + 1, k + 1) * elem X (k + 1, j + 1))"
  proof -
    have "basisValues (computeBasis s (upar ! i) (vpar ! i)) ! k
            * cp (getAllBasisfunctions ans ! k) ! j
          = elem ?A (i + 1, k + 1) * elem X (k + 1, j + 1)" if "k \<in> set [0..<?n]" for k
    proof -
      from that have k: "k < ?n" by simp
      with cps ans j cx have "cp (getAllBasisfunctions ans ! k) ! j = elem X (k + 1, j + 1)"
        by simp
      with elem_interpolationMatrix [OF i k, of upar vpar] show ?thesis by simp
    qed
    then have "map (\<lambda>k. basisValues (computeBasis s (upar ! i) (vpar ! i)) ! k
                        * cp (getAllBasisfunctions ans ! k) ! j) [0..<?n]
             = map (\<lambda>k. elem ?A (i + 1, k + 1) * elem X (k + 1, j + 1)) [0..<?n]"
      by (rule map_cong [OF refl])
    from arg_cong [OF this, of sum_list] show ?thesis
      unfolding fieldValue_def nb cb .
  qed
  also have "\<dots> = (\<Sum>k\<leftarrow>[1..<?n + 1]. elem ?A (i + 1, k) * elem X (k, j + 1))"
    by (rule sum_list_shift [of "\<lambda>k. elem ?A (i + 1, k) * elem X (k, j + 1)"])
  finally have "fieldValue ans (upar ! i) (vpar ! i) j
        = (\<Sum>k\<leftarrow>[1..<?n + 1]. elem ?A (i + 1, k) * elem X (k, j + 1))" .
  moreover have "elem ?B (i + 1, j + 1) = elem points (j + 1, i + 1)"
    by (simp add: transposed_def)
  ultimately show "\<bar>fieldValue ans (upar ! i) (vpar ! i) j - elem points (j + 1, i + 1)\<bar> \<le> tol"
    using res by simp
qed


lemma exSpline_interpolation:
  "\<exists>ans. regularInterpolation exServices exPatch [1, 3] [1, 1] exValues = Returned (Some ans)"
  using exSpline_interpolationMatrix_diagonal
  by (simp add: regularInterpolation_def exPatch_def exServices_def diagSolveDense_def
      nBasisFunctions_def exSpline_def exBasis_def exValues_def Let_def)

lemma exSpline_solved:
  "\<forall>X. solveDense exServices (interpolationMatrix exSpline [1, 3] [1, 1]) (transposed exValues)
          = Some X
        \<longrightarrow> solvedWithin 0 (interpolationMatrix exSpline [1, 3] [1, 1]) X (transposed exValues)"
  by (simp add: exServices_def diagSolveDense_def exSpline_interpolationMatrix_diagonal
      solvedWithin_def)
     (simp add: interpolationMatrix_def exSpline_def exBasis_def nBasisFunctions_def
      setElem_def zeroMatrix_def transposed_def exValues_def upt_rec)

theorem regularInterpolation_roundtrip_witness:
  "\<exists>ans. regularInterpolation exServices exPatch [1, 3] [1, 1] exValues = Returned (Some ans)
        \<and> \<bar>fieldValue ans 1 1 0 - 1\<bar> \<le> 0 \<and> \<bar>fieldValue ans 3 1 0 - 2\<bar> \<le> 0"
proof -
  obtain ans where
    ok: "regularInterpolation exServices exPatch [1, 3] [1, 1] exValues = Returned (Some ans)"
    using exSpline_interpolation by blast
  have mesh: "lrspline exPatch = Some exSpline"
    by (simp add: exPatch_def)
  note rt = regularInterpolation_roundtrip [OF mesh ok exSpline_solved]
  have n: "(0 :: nat) < nBasisFunctions exSpline" "(1 :: nat) < nBasisFunctions exSpline"
    "(0 :: nat) < rows exValues"
    by (simp_all add: nBasisFunctions_def exSpline_def exBasis_def exValues_def)
  from rt [rule_format, OF n(1) n(3)] rt [rule_format, OF n(2) n(3)]
  have "\<bar>fieldValue ans 1 1 0 - 1\<bar> \<le> 0 \<and> \<bar>fieldValue ans 3 1 0 - 2\<bar> \<le> 0"
    by (simp add: exValues_def)
  with ok show ?thesis by blast
qed

subsection \<open>Global L2 projection: the field matrix after a failure\<close>













subsection \<open>Global L2 projection: the failure conditions\<close>
















end
